theory Spec2Isabelle
  imports Complex_Main "HOL-Library.Sublist"
begin

section \<open>JavaScript numbers\<close>

text \<open>
  The script is \<^verbatim>\<open>src/squarespace-display-multi-currency.js\<close>. Its numbers are IEEE-754
  doubles. A double is represented here by its class: not-a-number, an infinity (the flag is
  the sign, \<open>True\<close> for negative), or a finite value. \<open>Finite q\<close> stands for the double
  nearest to the rational \<open>q\<close>; the rounding to 53 bits is not carried out, and negative zero is
  not told apart from zero. What is decided exactly is the class of a value: \<open>numberValue\<close> sends
  a rational at or beyond the overflow threshold \<open>2^1024 - 2^970\<close> to an infinity and one at or
  below the underflow threshold \<open>2^-1075\<close> to zero, as rounding to nearest (ties to even) does.
\<close>

datatype jsnum = NaN | Infinity bool | Finite rat

definition numberValue :: "rat \<Rightarrow> jsnum" where
  "numberValue x =
     (if 2 ^ 1024 - 2 ^ 970 \<le> \<bar>x\<bar> then Infinity (x < 0)
      else if \<bar>x\<bar> \<le> 1 / 2 ^ 1075 then Finite 0
      else Finite x)"

text \<open>
  The product \<^verbatim>\<open>price * rate\<close> (line 45). A NaN operand gives NaN, and so does an infinity
  times zero; these cases are exact. The product of two finite values is the class of the
  product of their representatives.
\<close>

fun multiply :: "jsnum \<Rightarrow> jsnum \<Rightarrow> jsnum" where
  "multiply NaN y = NaN"
| "multiply x NaN = NaN"
| "multiply (Infinity a) (Infinity b) = Infinity (a \<noteq> b)"
| "multiply (Infinity a) (Finite y) = (if y = 0 then NaN else Infinity (a \<noteq> (y < 0)))"
| "multiply (Finite x) (Infinity b) = (if x = 0 then NaN else Infinity ((x < 0) \<noteq> b))"
| "multiply (Finite x) (Finite y) = numberValue (x * y)"

section \<open>Strings and parseFloat\<close>

text \<open>
  Text is a list of characters (code units below 256). \<open>parseFloat\<close> is the built-in of the
  language (ECMA-262, 19.2.4): it skips leading white space and line terminators, takes the
  longest prefix that is a decimal literal (an optional sign, then \<^verbatim>\<open>Infinity\<close> or digits with
  an optional fraction and an optional exponent) and returns its value, or NaN when no prefix
  is a literal. Whatever follows the literal is ignored. \<open>scanLiteral\<close> also returns the text
  left over after the literal.
\<close>

definition isDigit :: "char \<Rightarrow> bool" where
  "isDigit c = (c \<in> set ''0123456789'')"

definition isWhiteSpace :: "char \<Rightarrow> bool" where
  "isWhiteSpace c =
     (c \<in> {CHR 0x09, CHR 0x0A, CHR 0x0B, CHR 0x0C, CHR 0x0D, CHR 0x20, CHR 0xA0})"

definition digitValue :: "char \<Rightarrow> nat" where
  "digitValue c = of_char c - 48"

definition digitsValue :: "string \<Rightarrow> nat" where
  "digitsValue ds = foldl (\<lambda>a c. 10 * a + digitValue c) 0 ds"

definition trimStart :: "string \<Rightarrow> string" where
  "trimStart s = dropWhile isWhiteSpace s"

fun takeSign :: "string \<Rightarrow> bool \<times> string" where
  "takeSign [] = (False, [])"
| "takeSign (c # cs) =
     (if c = CHR ''-'' then (True, cs)
      else if c = CHR ''+'' then (False, cs)
      else (False, c # cs))"

text \<open>
  The fraction after the integer digits: a point is part of the literal when integer digits
  precede it or a digit follows it.
\<close>

definition scanFraction :: "bool \<Rightarrow> string \<Rightarrow> string \<times> string" where
  "scanFraction hasInt r1 =
     (case r1 of
        [] \<Rightarrow> ([], r1)
      | c # r \<Rightarrow>
          if c = CHR ''.'' \<and> (hasInt \<or> takeWhile isDigit r \<noteq> [])
          then (takeWhile isDigit r, dropWhile isDigit r)
          else ([], r1))"

text \<open>The exponent part is taken only when at least one digit follows the letter and sign.\<close>

definition scanExponent :: "string \<Rightarrow> int \<times> string" where
  "scanExponent r =
     (case r of
        [] \<Rightarrow> (0, r)
      | e # r1 \<Rightarrow>
          if e = CHR ''e'' \<or> e = CHR ''E'' then
            (let (neg, r2) = takeSign r1; ds = takeWhile isDigit r2
             in if ds = [] then (0, r)
                else (if neg then - int (digitsValue ds) else int (digitsValue ds),
                      dropWhile isDigit r2))
          else (0, r))"

definition scale10 :: "rat \<Rightarrow> int \<Rightarrow> rat" where
  "scale10 x e = (if 0 \<le> e then x * 10 ^ nat e else x / 10 ^ nat (- e))"

datatype decimal_literal = LitInfinity | LitDecimal rat

definition scanUnsigned :: "string \<Rightarrow> (decimal_literal \<times> string) option" where
  "scanUnsigned s =
     (if prefix ''Infinity'' s then Some (LitInfinity, drop 8 s)
      else
        let ip = takeWhile isDigit s;
            (fp, r2) = scanFraction (ip \<noteq> []) (dropWhile isDigit s)
        in if ip = [] \<and> fp = [] then None
           else
             let (e, r3) = scanExponent r2
             in Some (LitDecimal
                        (scale10 (of_nat (digitsValue ip) + of_nat (digitsValue fp) / 10 ^ length fp) e),
                      r3))"

definition scanLiteral :: "string \<Rightarrow> (jsnum \<times> string) option" where
  "scanLiteral s =
     (let (neg, t) = takeSign (trimStart s)
      in case scanUnsigned t of
           None \<Rightarrow> None
         | Some (LitInfinity, r) \<Rightarrow> Some (Infinity neg, r)
         | Some (LitDecimal x, r) \<Rightarrow> Some (numberValue (if neg then - x else x), r))"

definition parseFloat :: "string \<Rightarrow> jsnum" where
  "parseFloat s = (case scanLiteral s of None \<Rightarrow> NaN | Some (v, r) \<Rightarrow> v)"

text \<open>
  \<^verbatim>\<open>s.split(sep)\<close> for a separator of one character: the pieces between the occurrences of
  the separator, at least one piece. \<open>element xs i\<close> is the array read \<^verbatim>\<open>xs[i]\<close>, with \<open>None\<close>
  for \<^verbatim>\<open>undefined\<close>; \<open>ToString\<close> is the conversion parseFloat and a template
  literal apply to their argument.
\<close>

fun split_sep :: "char \<Rightarrow> string \<Rightarrow> string list" where
  "split_sep sep [] = [[]]"
| "split_sep sep (c # cs) =
     (if c = sep then [] # split_sep sep cs
      else (case split_sep sep cs of [] \<Rightarrow> [[c]] | f # fs \<Rightarrow> (c # f) # fs))"

definition element :: "'a list \<Rightarrow> nat \<Rightarrow> 'a option" where
  "element xs i = (if i < length xs then Some (xs ! i) else None)"

definition ToString :: "string option \<Rightarrow> string" where
  "ToString v = (case v of None \<Rightarrow> ''undefined'' | Some s \<Rightarrow> s)"

section \<open>The CSV row parser (lines 3 to 8)\<close>

text \<open>
  \<^verbatim>\<open>const [currency, rate] = row.split(','); return { currency, rate: parseFloat(rate) }\<close>:
  the first two pieces of the row, the second one absent when the row has no comma.
\<close>

record RateRecord =
  currency :: "string option"
  rate :: jsnum

definition parseCsvRow :: "string \<Rightarrow> RateRecord" where
  "parseCsvRow row =
     (let fields = split_sep CHR '','' row
      in \<lparr>currency = element fields 0, rate = parseFloat (ToString (element fields 1))\<rparr>)"

definition parseCsvRows :: "string list \<Rightarrow> RateRecord list" where
  "parseCsvRows rows = map parseCsvRow rows"

text \<open>
  The parser as the specification words it: the line is cut at its first comma into exactly
  two fields, the second being everything after that comma.
\<close>

definition splitFirst :: "char \<Rightarrow> string \<Rightarrow> string \<times> string option" where
  "splitFirst sep s =
     (takeWhile (\<lambda>c. c \<noteq> sep) s,
      case dropWhile (\<lambda>c. c \<noteq> sep) s of [] \<Rightarrow> None | x # r \<Rightarrow> Some r)"

definition parseCsvRow_spec :: "string \<Rightarrow> RateRecord" where
  "parseCsvRow_spec row =
     (let (first, second) = splitFirst CHR '','' row
      in \<lparr>currency = Some first, rate = parseFloat (ToString second)\<rparr>)"

text \<open>
  The value of the numeral \<^verbatim>\<open>ds.fs\<close>: its digits read as one number, divided by ten to the
  number of fraction digits. A field is numeric when all of it (white space around it apart)
  is a decimal literal; it starts with a numeral when, after leading white space and a
  sign, it begins with \<^verbatim>\<open>Infinity\<close>, a digit, or a point followed by a digit.
\<close>

definition decimalValue :: "string \<Rightarrow> string \<Rightarrow> rat" where
  "decimalValue ds fs = of_nat (digitsValue (ds @ fs)) / 10 ^ length fs"

definition numericField :: "string \<Rightarrow> bool" where
  "numericField f = (case scanLiteral f of None \<Rightarrow> False | Some (v, r) \<Rightarrow> trimStart r = [])"

definition startsNumeral :: "string \<Rightarrow> bool" where
  "startsNumeral f =
     (let t = snd (takeSign (trimStart f))
      in prefix ''Infinity'' t \<or>
         (case t of
            [] \<Rightarrow> False
          | c # r \<Rightarrow> isDigit c \<or> (c = CHR ''.'' \<and> (case r of [] \<Rightarrow> False | d # x \<Rightarrow> isDigit d))))"

section \<open>Exceptions, the console and the network\<close>

text \<open>
  A thrown value is an \<open>exn\<close>: \<open>TypeError\<close> is what a property read on \<^verbatim>\<open>null\<close> throws,
  \<open>RangeError\<close> what the number formatter throws for a bad currency code, \<open>HttpError s\<close> the
  \<^verbatim>\<open>Error\<close> of line 15 with the status \<open>s\<close> in its message. The outcome of the network call
  is an input of the model: the promise of \<^verbatim>\<open>fetch\<close> is rejected, or fulfilled with a response
  whose \<^verbatim>\<open>ok\<close> flag is true for a status from 200 to 299 and whose \<^verbatim>\<open>text()\<close> yields the
  body or is itself rejected.
\<close>

datatype exn = TypeError | RangeError | HttpError nat | OtherError string

datatype log_entry = ConsoleError string exn

record response =
  status :: nat
  body :: "exn + string"

definition ok :: "response \<Rightarrow> bool" where
  "ok r = (200 \<le> status r \<and> status r \<le> 299)"

datatype fetch_result = Rejected exn | Fulfilled response

section \<open>The page\<close>

text \<open>
  The document is the list of the children of the document node. An element has a tag name
  (in lower case), its attributes, the listeners added to it (event type and callback) and
  its children. An element reference is a path: the index of a node among the top nodes, then
  child indices. No reference is kept across a change of the tree in the script, so paths
  never go stale.
\<close>

datatype handler = DisplayCurrencies | InitCurrencyConversion

datatype node =
    Element string "(string \<times> string) list" "(string \<times> handler) list" "node list"
  | Text string

type_synonym path = "nat list"

definition isAsciiWhitespace :: "char \<Rightarrow> bool" where
  "isAsciiWhitespace c = (c \<in> {CHR 0x09, CHR 0x0A, CHR 0x0C, CHR 0x0D, CHR 0x20})"

fun tokensFrom :: "string \<Rightarrow> string \<Rightarrow> string list" where
  "tokensFrom cur [] = (if cur = [] then [] else [rev cur])"
| "tokensFrom cur (c # cs) =
     (if isAsciiWhitespace c then (if cur = [] then tokensFrom [] cs else rev cur # tokensFrom [] cs)
      else tokensFrom (c # cur) cs)"

definition tokens :: "string \<Rightarrow> string list" where
  "tokens s = tokensFrom [] s"

fun getAttribute :: "node \<Rightarrow> string \<Rightarrow> string option" where
  "getAttribute (Element t a l cs) name = map_of a name"
| "getAttribute (Text s) name = None"

fun childNodes :: "node \<Rightarrow> node list" where
  "childNodes (Element t a l cs) = cs"
| "childNodes (Text s) = []"

fun textContent :: "node \<Rightarrow> string" where
  "textContent (Text s) = s"
| "textContent (Element t a l cs) = concat (map textContent cs)"

text \<open>
  Selectors, as far as the script uses them: a compound of simple selectors (tag, class,
  id, and \<^verbatim>\<open>[name~="word"]\<close>), and a chain of compounds joined by the descendant
  combinator, outermost first. The search walks the tree in document order carrying the part
  of the chain the ancestors have not matched yet: an element is selected when only the last
  compound is left and it matches.
\<close>

datatype simple = TagSel string | ClassSel string | IdSel string | AttrWordSel string string

type_synonym compound = "simple list"

type_synonym selector = "compound list"

fun matchesSimple :: "simple \<Rightarrow> node \<Rightarrow> bool" where
  "matchesSimple s (Text x) = False"
| "matchesSimple (TagSel t) (Element tag a l cs) = (tag = t)"
| "matchesSimple (ClassSel c) (Element tag a l cs) =
     (case map_of a ''class'' of None \<Rightarrow> False | Some v \<Rightarrow> c \<in> set (tokens v))"
| "matchesSimple (IdSel i) (Element tag a l cs) = (map_of a ''id'' = Some i)"
| "matchesSimple (AttrWordSel n w) (Element tag a l cs) =
     (case map_of a n of None \<Rightarrow> False | Some v \<Rightarrow> w \<in> set (tokens v))"

definition matchesCompound :: "compound \<Rightarrow> node \<Rightarrow> bool" where
  "matchesCompound c n = list_all (\<lambda>s. matchesSimple s n) c"

fun selects :: "selector \<Rightarrow> node \<Rightarrow> bool" where
  "selects [c] n = matchesCompound c n"
| "selects sel n = False"

fun descend :: "selector \<Rightarrow> node \<Rightarrow> selector" where
  "descend (c # c' # cs) n = (if matchesCompound c n then c' # cs else c # c' # cs)"
| "descend sel n = sel"

fun qs_node :: "selector \<Rightarrow> node \<Rightarrow> path option"
  and qs_nodes :: "selector \<Rightarrow> node list \<Rightarrow> path option" where
  "qs_node sel (Text s) = None"
| "qs_node sel (Element t a l cs) =
     (if selects sel (Element t a l cs) then Some []
      else qs_nodes (descend sel (Element t a l cs)) cs)"
| "qs_nodes sel [] = None"
| "qs_nodes sel (n # ns) =
     (case qs_node sel n of
        Some p \<Rightarrow> Some (0 # p)
      | None \<Rightarrow> (case qs_nodes sel ns of Some (i # p) \<Rightarrow> Some (Suc i # p) | _ \<Rightarrow> None))"

fun node_at :: "node list \<Rightarrow> path \<Rightarrow> node option" where
  "node_at ns [] = None"
| "node_at ns [i] = element ns i"
| "node_at ns (i # p) =
     (case element ns i of Some (Element t a l cs) \<Rightarrow> node_at cs p | _ \<Rightarrow> None)"

text \<open>
  \<^verbatim>\<open>document.querySelector\<close> returns the first selected element in document order, or
  \<^verbatim>\<open>null\<close>; \<^verbatim>\<open>document.getElementById\<close> the first element with that id.
\<close>

definition querySelector :: "selector \<Rightarrow> node list \<Rightarrow> (path \<times> node) option" where
  "querySelector sel doc =
     (case qs_nodes sel doc of
        None \<Rightarrow> None
      | Some p \<Rightarrow> (case node_at doc p of None \<Rightarrow> None | Some e \<Rightarrow> Some (p, e)))"

definition getElementById :: "string \<Rightarrow> node list \<Rightarrow> (path \<times> node) option" where
  "getElementById i doc = querySelector [[IdSel i]] doc"

text \<open>
  \<^verbatim>\<open>element.remove()\<close> takes the node at a path out of the tree, with all below it;
  \<open>update_at\<close> replaces the node at a path. \<open>prependChild\<close> is
  \<^verbatim>\<open>e.insertBefore(new, e.firstChild)\<close>. \<^verbatim>\<open>addEventListener\<close> ignores a listener that the
  target already has for the same event type.
\<close>

fun remove_at :: "path \<Rightarrow> node list \<Rightarrow> node list" where
  "remove_at [] ns = ns"
| "remove_at [i] ns = take i ns @ drop (Suc i) ns"
| "remove_at (i # p) ns =
     (case element ns i of
        Some (Element t a l cs) \<Rightarrow> ns[i := Element t a l (remove_at p cs)]
      | _ \<Rightarrow> ns)"

fun update_at :: "path \<Rightarrow> (node \<Rightarrow> node) \<Rightarrow> node list \<Rightarrow> node list" where
  "update_at [] f ns = ns"
| "update_at [i] f ns = (case element ns i of Some n \<Rightarrow> ns[i := f n] | None \<Rightarrow> ns)"
| "update_at (i # p) f ns =
     (case element ns i of
        Some (Element t a l cs) \<Rightarrow> ns[i := Element t a l (update_at p f cs)]
      | _ \<Rightarrow> ns)"

fun prependChild :: "node \<Rightarrow> node \<Rightarrow> node" where
  "prependChild new (Element t a l cs) = Element t a l (new # cs)"
| "prependChild new (Text s) = Text s"

fun addEventListener :: "string \<Rightarrow> handler \<Rightarrow> node \<Rightarrow> node" where
  "addEventListener ty h (Element t a l cs) =
     Element t a (if (ty, h) \<in> set l then l else l @ [(ty, h)]) cs"
| "addEventListener ty h (Text s) = Text s"

text \<open>The number of elements of a tree that carry a given id: the live display blocks.\<close>

fun countNode :: "string \<Rightarrow> node \<Rightarrow> nat" where
  "countNode i (Text s) = 0"
| "countNode i (Element t a l cs) =
     (if map_of a ''id'' = Some i then 1 else 0) + sum_list (map (countNode i) cs)"

definition countId :: "string \<Rightarrow> node list \<Rightarrow> nat" where
  "countId i ns = sum_list (map (countNode i) ns)"

text \<open>
  What the script can observe and change: the document, the console log, and the network
  requests issued so far.
\<close>

record world =
  document :: "node list"
  console :: "log_entry list"
  requests :: "string list"

section \<open>The exchange rate fetcher (lines 10 to 24)\<close>

text \<open>
  An async function runs up to its first \<^verbatim>\<open>await\<close> when it is called and continues when
  the awaited promise settles. \<open>getExchangeRates_begin\<close> is the part up to
  \<^verbatim>\<open>await fetch(...)\<close>, which issues the request; \<open>getExchangeRates_settle\<close> is the rest,
  given how the request ended. Both awaits of the function are settled in one step: nothing
  the function does between them touches the page. The result is \<open>Inl\<close> when an exception
  leaves the function (only a rejected \<^verbatim>\<open>text()\<close> can do that) and \<open>Inr\<close> its return value.
\<close>

definition GOOGLE_SHEETS_URL :: string where
  "GOOGLE_SHEETS_URL = ''https://docs.google.com/spreadsheets/d/e/<SHEET_ID>/pub?output=csv''"

definition fetch :: "string \<Rightarrow> world \<Rightarrow> world" where
  "fetch url w = w\<lparr>requests := requests w @ [url]\<rparr>"

definition console_error :: "string \<Rightarrow> exn \<Rightarrow> world \<Rightarrow> world" where
  "console_error msg e w = w\<lparr>console := console w @ [ConsoleError msg e]\<rparr>"

definition getExchangeRates_begin :: "world \<Rightarrow> world" where
  "getExchangeRates_begin w = fetch GOOGLE_SHEETS_URL w"

definition getExchangeRates_settle ::
  "fetch_result \<Rightarrow> world \<Rightarrow> (exn + RateRecord list) \<times> world" where
  "getExchangeRates_settle f w =
     (case (case f of
              Rejected e \<Rightarrow> Inl e
            | Fulfilled r \<Rightarrow> if \<not> ok r then Inl (HttpError (status r)) else Inr r) of
        Inl error \<Rightarrow> (Inr [], console_error ''Error fetching exchange rates:'' error w)
      | Inr r \<Rightarrow>
          (case body r of
             Inl e \<Rightarrow> (Inl e, w)
           | Inr csv \<Rightarrow> (Inr (parseCsvRows (split_sep CHR 0x0A csv)), w)))"

definition getExchangeRates ::
  "fetch_result \<Rightarrow> world \<Rightarrow> (exn + RateRecord list) \<times> world" where
  "getExchangeRates f w = getExchangeRates_settle f (getExchangeRates_begin w)"

section \<open>The price extractor (lines 35 to 39)\<close>

text \<open>
  \<^verbatim>\<open>text.match(/\d+(\.\d+)?/)\<close> finds the leftmost match: it starts at the first digit, takes
  all the digits that follow and then, if a point and at least one digit come next, the point
  and the digits after it. \<open>matchPrice\<close> is element 0 of the match, \<open>None\<close> when there is no
  match; reading element 0 of \<^verbatim>\<open>null\<close> throws. \<open>removeCommas\<close> is
  \<^verbatim>\<open>.replace(/,/g, '')\<close>.
\<close>

definition matchPrice :: "string \<Rightarrow> string option" where
  "matchPrice s =
     (let t = dropWhile (\<lambda>c. \<not> isDigit c) s
      in if t = [] then None
         else
           let ip = takeWhile isDigit t; r = dropWhile isDigit t
           in Some (case r of
                      [] \<Rightarrow> ip
                    | c # r1 \<Rightarrow>
                        if c = CHR ''.'' \<and> takeWhile isDigit r1 \<noteq> []
                        then ip @ c # takeWhile isDigit r1
                        else ip))"

definition removeCommas :: "string \<Rightarrow> string" where
  "removeCommas s = filter (\<lambda>c. c \<noteq> CHR '','') s"

definition priceOfText :: "string \<Rightarrow> exn + jsnum" where
  "priceOfText t =
     (case matchPrice t of
        None \<Rightarrow> Inl TypeError
      | Some m \<Rightarrow> Inr (parseFloat (removeCommas m)))"

definition extractPrice :: "node list \<Rightarrow> exn + jsnum" where
  "extractPrice doc =
     (case querySelector [[ClassSel ''product-price'']] doc of
        None \<Rightarrow> Inl TypeError
      | Some (p, e) \<Rightarrow> priceOfText (textContent e))"

section \<open>Currency formatting (lines 40 to 46)\<close>

text \<open>
  \<^verbatim>\<open>new Intl.NumberFormat('en-US', {style: 'currency', currency})\<close> is the host's formatter
  (ECMA-402). Its constructor throws a TypeError when the currency is undefined and a
  RangeError when it is not a well-formed code, that is three letters A to Z in either case.
  \<^verbatim>\<open>format\<close> never throws. The locale data is not part of the repository and is a parameter:
  \<open>currencySign\<close> is how the locale writes the currency before the number, \<open>formatAmount\<close>
  the text for a value that is a number. For NaN the locale's text is the sign followed by
  \<^verbatim>\<open>NaN\<close>.
\<close>

record intl =
  currencySign :: "string \<Rightarrow> string"
  formatAmount :: "string \<Rightarrow> jsnum \<Rightarrow> string"

definition isAsciiLetter :: "char \<Rightarrow> bool" where
  "isAsciiLetter c = (c \<in> set ''ABCDEFGHIJKLMNOPQRSTUVWXYZabcdefghijklmnopqrstuvwxyz'')"

definition isWellFormedCurrencyCode :: "string \<Rightarrow> bool" where
  "isWellFormedCurrencyCode c = (length c = 3 \<and> list_all isAsciiLetter c)"

definition NumberFormat :: "string option \<Rightarrow> exn + string" where
  "NumberFormat cur =
     (case cur of
        None \<Rightarrow> Inl TypeError
      | Some c \<Rightarrow> if isWellFormedCurrencyCode c then Inr c else Inl RangeError)"

definition format :: "intl \<Rightarrow> string \<Rightarrow> jsnum \<Rightarrow> string" where
  "format I c x = (case x of NaN \<Rightarrow> currencySign I c @ ''NaN'' | _ \<Rightarrow> formatAmount I c x)"

definition formatRate :: "intl \<Rightarrow> jsnum \<Rightarrow> RateRecord \<Rightarrow> exn + (string option \<times> string)" where
  "formatRate I price r =
     (case NumberFormat (currency r) of
        Inl e \<Rightarrow> Inl e
      | Inr nf \<Rightarrow> Inr (currency r, format I nf (multiply price (rate r))))"

text \<open>\<^verbatim>\<open>rates.map(f)\<close> where \<open>f\<close> may throw: the first exception ends the whole map.\<close>

fun mapE :: "('a \<Rightarrow> exn + 'b) \<Rightarrow> 'a list \<Rightarrow> exn + 'b list" where
  "mapE f [] = Inr []"
| "mapE f (x # xs) =
     (case f x of
        Inl e \<Rightarrow> Inl e
      | Inr y \<Rightarrow> (case mapE f xs of Inl e \<Rightarrow> Inl e | Inr ys \<Rightarrow> Inr (y # ys)))"

section \<open>The currency renderer (lines 26 to 68)\<close>

text \<open>
  Setting \<^verbatim>\<open>textContent\<close> replaces the children by one text node (none for the empty
  string). The display block is the \<^verbatim>\<open>div\<close> with the fixed id, holding the heading and the
  list with one item per formatted rate.
\<close>

definition setTextContent :: "string \<Rightarrow> node list" where
  "setTextContent s = (if s = [] then [] else [Text s])"

definition listItem :: "string option \<times> string \<Rightarrow> node" where
  "listItem fr = Element ''li'' [] [] (setTextContent (ToString (fst fr) @ '': '' @ snd fr))"

definition displayBlock :: "(string option \<times> string) list \<Rightarrow> node" where
  "displayBlock formattedRates =
     Element ''div'' [(''id'', ''multi-currency-display'')] []
       [Element ''p'' [] [] (setTextContent ''Approximate price in other currencies''),
        Element ''ul'' [] [] (map listItem formattedRates)]"

text \<open>
  \<open>displayCurrencies_begin\<close> is the render cycle up to \<^verbatim>\<open>await getExchangeRates()\<close>
  (lines 27 to 34): the page type guard, the removal of the previous block, and the request.
  Its promise is then pending, or already settled: fulfilled (\<open>Settled None\<close>) on a page that
  is not a product page, rejected (\<open>Settled (Some e)\<close>) when the meta element is missing.
  \<open>displayCurrencies_resume\<close> is the rest of the cycle (lines 34 to 66) once the request has
  ended; it returns the exception that rejects the promise, if any.
  \<open>displayCurrencies\<close> is a whole cycle with nothing else running in between.
\<close>

datatype promise = Pending | Settled "exn option"

definition isProductPage :: "node list \<Rightarrow> bool" where
  "isProductPage doc =
     (case querySelector [[TagSel ''meta'', AttrWordSel ''property'' ''og:type'']] doc of
        None \<Rightarrow> False
      | Some (p, pageType) \<Rightarrow> getAttribute pageType ''content'' = Some ''product'')"

definition displayCurrencies_begin :: "world \<Rightarrow> promise \<times> world" where
  "displayCurrencies_begin w =
     (case querySelector [[TagSel ''meta'', AttrWordSel ''property'' ''og:type'']] (document w) of
        None \<Rightarrow> (Settled (Some TypeError), w)
      | Some (p, pageType) \<Rightarrow>
          if getAttribute pageType ''content'' = Some ''product'' then
            (let w1 = (case getElementById ''multi-currency-display'' (document w) of
                         None \<Rightarrow> w
                       | Some (q, multiCurrencyElement) \<Rightarrow>
                           w\<lparr>document := remove_at q (document w)\<rparr>)
             in (Pending, getExchangeRates_begin w1))
          else (Settled None, w))"

definition displayCurrencies_resume :: "intl \<Rightarrow> fetch_result \<Rightarrow> world \<Rightarrow> exn option \<times> world" where
  "displayCurrencies_resume I f w =
     (case getExchangeRates_settle f w of
        (Inl e, w1) \<Rightarrow> (Some e, w1)
      | (Inr rates, w1) \<Rightarrow>
          (case extractPrice (document w1) of
             Inl e \<Rightarrow> (Some e, w1)
           | Inr price \<Rightarrow>
               (case mapE (formatRate I price) rates of
                  Inl e \<Rightarrow> (Some e, w1)
                | Inr formattedRates \<Rightarrow>
                    (case querySelector [[ClassSel ''ProductItem-details-excerpt'']] (document w1) of
                       None \<Rightarrow> (Some TypeError, w1)
                     | Some (d, detailsElement) \<Rightarrow>
                         (None,
                          w1\<lparr>document :=
                               update_at d (prependChild (displayBlock formattedRates))
                                 (document w1)\<rparr>)))))"

definition displayCurrencies :: "intl \<Rightarrow> fetch_result \<Rightarrow> world \<Rightarrow> exn option \<times> world" where
  "displayCurrencies I f w =
     (case displayCurrencies_begin w of
        (Settled r, w1) \<Rightarrow> (r, w1)
      | (Pending, w1) \<Rightarrow> displayCurrencies_resume I f w1)"

section \<open>The page lifecycle controller (lines 70 to 76)\<close>

text \<open>
  \<open>initCurrencyConversion\<close> calls \<^verbatim>\<open>displayCurrencies()\<close> without awaiting it, so only the
  first part of the cycle runs before the variant control is looked up. The result is the
  exception thrown by the function itself, if any, the state of the cycle it started, and the
  world. It is registered for both page-ready events.
\<close>

definition initCurrencyConversion :: "world \<Rightarrow> exn option \<times> promise \<times> world" where
  "initCurrencyConversion w =
     (let (c, w1) = displayCurrencies_begin w
      in case querySelector [[ClassSel ''variant-select-wrapper''], [TagSel ''select'']]
                (document w1) of
           None \<Rightarrow> (Some TypeError, c, w1)
         | Some (p, variantSelect) \<Rightarrow>
             (None, c,
              w1\<lparr>document :=
                   update_at p (addEventListener ''change'' DisplayCurrencies) (document w1)\<rparr>))"

definition windowListeners :: "(string \<times> handler) list" where
  "windowListeners =
     [(''DOMContentLoaded'', InitCurrencyConversion), (''mercury:load'', InitCurrencyConversion)]"

section \<open>Example pages\<close>

text \<open>
  A small page for the concrete instances below: the page type tag, the price element with a
  given text, further nodes of the body, and the details container. The example locale data
  writes a currency as its code and a space.
\<close>

definition examplePage :: "string \<Rightarrow> string \<Rightarrow> node list \<Rightarrow> node list" where
  "examplePage pageType priceText rest =
     [Element ''html'' [] []
        [Element ''head'' [] []
           [Element ''meta'' [(''property'', ''og:type''), (''content'', pageType)] [] []],
         Element ''body'' [] []
           (Element ''div'' [(''class'', ''product-price'')] [] [Text priceText] #
            rest @
            [Element ''div'' [(''class'', ''ProductItem-details-excerpt'')] []
               [Element ''p'' [] [] [Text ''Details'']]])]]"

definition exampleVariants :: "node list" where
  "exampleVariants =
     [Element ''div'' [(''class'', ''variant-select-wrapper'')] [] [Element ''select'' [] [] []]]"

definition exampleWorld :: "node list \<Rightarrow> world" where
  "exampleWorld doc = \<lparr>document = doc, console = [], requests = []\<rparr>"

definition exampleIntl :: intl where
  "exampleIntl =
     \<lparr>currencySign = (\<lambda>c. c @ '' ''), formatAmount = (\<lambda>c x. c @ '' (amount)'')\<rparr>"

section \<open>Facts about the scanner and the parser\<close>

lemma takeWhile_stop: "\<not> P x \<Longrightarrow> takeWhile P (a @ x # b) = takeWhile P a"
  by (induction a) auto

lemma dropWhile_stop: "\<not> P x \<Longrightarrow> dropWhile P (a @ x # b) = dropWhile P a @ x # b"
  by (induction a) auto

lemma split_sep_none: "sep \<notin> set s \<Longrightarrow> split_sep sep s = [s]"
  by (induction s) auto

lemma split_sep_append: "sep \<notin> set a \<Longrightarrow> split_sep sep (a @ sep # b) = a # split_sep sep b"
  by (induction a) auto

lemma comma_not_digit: "\<not> isDigit CHR '',''"
  by (simp add: isDigit_def)

lemma comma_not_space: "\<not> isWhiteSpace CHR '',''"
  by (simp add: isWhiteSpace_def)

lemma takeSign_stop:
  "takeSign (t @ CHR '','' # b) = (fst (takeSign t), snd (takeSign t) @ CHR '','' # b)"
  by (cases t) auto

lemma prefix_stop: "x \<notin> set p \<Longrightarrow> prefix p (t @ x # b) = prefix p t"
proof (induction p arbitrary: t)
  case Nil
  then show ?case by simp
next
  case (Cons c p)
  then show ?case by (cases t) auto
qed

lemma scanExponent_stop:
  "scanExponent (r @ CHR '','' # b) = (fst (scanExponent r), snd (scanExponent r) @ CHR '','' # b)"
proof (cases r)
  case Nil
  then show ?thesis by (simp add: scanExponent_def)
next
  case (Cons e r1)
  then show ?thesis
    by (simp add: scanExponent_def takeSign_stop takeWhile_stop dropWhile_stop
        comma_not_digit split_beta Let_def)
qed

lemma scanFraction_stop:
  "scanFraction h (r @ CHR '','' # b) =
     (fst (scanFraction h r), snd (scanFraction h r) @ CHR '','' # b)"
  by (cases r) (auto simp add: scanFraction_def takeWhile_stop dropWhile_stop comma_not_digit)

lemma scanUnsigned_stop:
  "scanUnsigned (t @ CHR '','' # b) =
     map_option (\<lambda>(v, r). (v, r @ CHR '','' # b)) (scanUnsigned t)"
proof (cases "prefix ''Infinity'' t")
  case True
  then have "8 \<le> length t" using prefix_length_le by fastforce
  with True show ?thesis by (simp add: scanUnsigned_def prefix_stop)
next
  case False
  then show ?thesis
    by (cases "takeWhile isDigit t = []")
      (simp_all add: scanUnsigned_def prefix_stop takeWhile_stop dropWhile_stop
        comma_not_digit scanFraction_stop scanExponent_stop split_beta Let_def)
qed

lemma scanLiteral_stop:
  "scanLiteral (a @ CHR '','' # b) =
     map_option (\<lambda>(v, r). (v, r @ CHR '','' # b)) (scanLiteral a)"
  by (simp add: scanLiteral_def trimStart_def dropWhile_stop comma_not_space takeSign_stop
      scanUnsigned_stop split_beta option.map_comp split: option.splits decimal_literal.splits)

lemma parseFloat_stop: "parseFloat (a @ CHR '','' # b) = parseFloat a"
  by (simp add: parseFloat_def scanLiteral_stop split: option.splits)

lemma digitsValue_snoc: "digitsValue (xs @ [x]) = 10 * digitsValue xs + digitValue x"
  by (simp add: digitsValue_def)

lemma digitsValue_append:
  "digitsValue (ds @ fs) = digitsValue ds * 10 ^ length fs + digitsValue fs"
proof (induction fs rule: rev_induct)
  case Nil
  then show ?case by (simp add: digitsValue_def)
next
  case (snoc x xs)
  have "digitsValue (ds @ xs @ [x]) = 10 * digitsValue (ds @ xs) + digitValue x"
    using digitsValue_snoc [of "ds @ xs" x] by simp
  then show ?case by (simp add: snoc.IH digitsValue_snoc algebra_simps)
qed

lemma takeWhile_all: "\<forall>c\<in>set ds. P c \<Longrightarrow> \<not> P x \<Longrightarrow> takeWhile P (ds @ x # r) = ds"
  by (induction ds) auto

lemma dropWhile_all: "\<forall>c\<in>set ds. P c \<Longrightarrow> \<not> P x \<Longrightarrow> dropWhile P (ds @ x # r) = x # r"
  by (induction ds) auto

lemma digit_facts:
  assumes "isDigit c"
  shows "\<not> isWhiteSpace c" "c \<noteq> CHR ''-''" "c \<noteq> CHR ''+''" "c \<noteq> CHR ''I''" "c \<noteq> CHR ''.''"
     "c \<noteq> CHR '',''"
  using assms by (auto simp add: isDigit_def isWhiteSpace_def)

lemma scanLiteral_decimal:
  assumes "ds \<noteq> []" "fs \<noteq> []" "\<forall>c\<in>set ds. isDigit c" "\<forall>c\<in>set fs. isDigit c"
  shows "scanLiteral (ds @ CHR ''.'' # fs) = Some (numberValue (decimalValue ds fs), [])"
proof -
  obtain d ds' where ds: "ds = d # ds'" using assms(1) by (cases ds) auto
  then have d: "isDigit d" using assms(3) by simp
  have dot: "\<not> isDigit CHR ''.''" by (simp add: isDigit_def)
  have tw: "takeWhile isDigit (ds @ CHR ''.'' # fs) = ds"
    using assms(3) dot by (rule takeWhile_all)
  have dw: "dropWhile isDigit (ds @ CHR ''.'' # fs) = CHR ''.'' # fs"
    using assms(3) dot by (rule dropWhile_all)
  have twf: "takeWhile isDigit fs = fs" using assms(4) by (simp add: takeWhile_eq_all_conv)
  have dwf: "dropWhile isDigit fs = []" using assms(4) by simp
  have trim: "trimStart (ds @ CHR ''.'' # fs) = ds @ CHR ''.'' # fs"
    using digit_facts(1) [OF d] by (simp add: trimStart_def ds)
  have sign: "takeSign (ds @ CHR ''.'' # fs) = (False, ds @ CHR ''.'' # fs)"
    using digit_facts(2,3) [OF d] by (simp add: ds)
  have inf: "\<not> prefix ''Infinity'' (ds @ CHR ''.'' # fs)"
    using digit_facts(4) [OF d] by (simp add: ds)
  have frac: "scanFraction True (CHR ''.'' # fs) = (fs, [])"
    by (simp add: scanFraction_def twf dwf)
  have val: "(of_nat (digitsValue ds) + of_nat (digitsValue fs) / 10 ^ length fs :: rat)
      = decimalValue ds fs"
    by (simp add: decimalValue_def digitsValue_append add_divide_distrib)
  have "scanUnsigned (ds @ CHR ''.'' # fs) = Some (LitDecimal (decimalValue ds fs), [])"
    using inf assms(1) by (simp add: scanUnsigned_def tw dw frac scanExponent_def scale10_def val)
  then show ?thesis by (simp add: scanLiteral_def trim sign)
qed

lemma numberValue_not_NaN: "numberValue x \<noteq> NaN"
  by (simp add: numberValue_def)

lemma scanUnsigned_None:
  "scanUnsigned t = None \<longleftrightarrow>
     \<not> (prefix ''Infinity'' t \<or>
        (case t of [] \<Rightarrow> False
         | c # r \<Rightarrow> isDigit c \<or> (c = CHR ''.'' \<and> (case r of [] \<Rightarrow> False | d # _ \<Rightarrow> isDigit d))))"
proof (cases t)
  case Nil
  then show ?thesis by (simp add: scanUnsigned_def scanFraction_def)
next
  case (Cons c r)
  then show ?thesis
    by (cases r) (auto simp add: scanUnsigned_def scanFraction_def split_beta Let_def)
qed

lemma parseFloat_NaN: "parseFloat f = NaN \<longleftrightarrow> \<not> startsNumeral f"
proof -
  have "parseFloat f = NaN \<longleftrightarrow> scanUnsigned (snd (takeSign (trimStart f))) = None"
    by (auto simp add: parseFloat_def scanLiteral_def split_beta numberValue_not_NaN
        split: option.splits decimal_literal.splits)
  then show ?thesis by (simp add: scanUnsigned_None startsNumeral_def Let_def)
qed

section \<open>Facts about the page\<close>

lemma element_Nil: "element [] i = None"
  by (simp add: element_def)

lemma element_Cons_0: "element (n # ns) 0 = Some n"
  by (simp add: element_def)

lemma element_Cons_Suc: "element (n # ns) (Suc i) = element ns i"
  by (simp add: element_def)

lemma element_Some: "element ns i = Some n \<longleftrightarrow> i < length ns \<and> ns ! i = n"
  by (auto simp add: element_def)

lemma node_at_Nil: "node_at [] p = None"
  by (induction "[] :: node list" p rule: node_at.induct) (simp_all add: element_Nil)

lemma node_at_Cons_Suc: "node_at (n # ns) (Suc i # p) = node_at ns (i # p)"
  by (cases p) (simp_all add: element_Cons_Suc)

lemma node_at_Cons_0:
  "node_at (n # ns) (0 # p) = (if p = [] then Some n else node_at (childNodes n) p)"
proof (cases p)
  case Nil
  then show ?thesis by (simp add: element_Cons_0)
next
  case (Cons j q)
  then show ?thesis by (cases n) (simp_all add: element_Cons_0 node_at_Nil)
qed

lemma last_descend: "last (descend sel n) = last sel"
  by (cases "(sel, n)" rule: descend.cases) simp_all

lemma qs_found:
  "qs_node sel n = Some p \<Longrightarrow>
     \<exists>t a l cs sel'.
       (if p = [] then Some n else node_at (childNodes n) p) = Some (Element t a l cs) \<and>
       selects sel' (Element t a l cs) \<and> last sel' = last sel"
  "qs_nodes sel ns = Some p \<Longrightarrow>
     \<exists>t a l cs sel'.
       node_at ns p = Some (Element t a l cs) \<and>
       selects sel' (Element t a l cs) \<and> last sel' = last sel"
proof (induction sel n and sel ns arbitrary: p and p rule: qs_node_qs_nodes.induct)
  case (1 sel s)
  then show ?case by simp
next
  case (2 sel t a l cs)
  show ?case
  proof (cases "selects sel (Element t a l cs)")
    case True
    with "2.prems" show ?thesis by auto
  next
    case False
    with "2.prems" have q: "qs_nodes (descend sel (Element t a l cs)) cs = Some p" by simp
    from "2.IH" [OF False q] obtain t' a' l' cs' sel' where
      f: "node_at cs p = Some (Element t' a' l' cs')" "selects sel' (Element t' a' l' cs')"
         "last sel' = last (descend sel (Element t a l cs))"
      by blast
    from f(1) have "p \<noteq> []" by auto
    with f show ?thesis by (auto simp add: last_descend)
  qed
next
  case (3 sel)
  then show ?case by simp
next
  case (4 sel n ns)
  show ?case
  proof (cases "qs_node sel n")
    case (Some p')
    with "4.prems" have p: "p = 0 # p'" by simp
    from "4.IH"(1) [OF Some] show ?thesis by (simp add: p node_at_Cons_0)
  next
    case None
    with "4.prems" obtain i p' where q: "qs_nodes sel ns = Some (i # p')" and p: "p = Suc i # p'"
      by (auto split: option.splits list.splits)
    from "4.IH"(2) [OF None q] show ?thesis by (simp add: p node_at_Cons_Suc)
  qed
qed

lemma selects_single: "selects sel' e \<Longrightarrow> last sel' = c \<Longrightarrow> matchesCompound c e"
  by (cases "(sel', e)" rule: selects.cases) simp_all

lemma querySelector_Some:
  assumes "querySelector sel doc = Some (p, e)"
  shows "node_at doc p = Some e \<and> (\<exists>t a l cs. e = Element t a l cs)"
proof -
  from assms obtain p' where q: "qs_nodes sel doc = Some p'"
    by (auto simp add: querySelector_def split: option.splits)
  with assms have "p' = p" "node_at doc p = Some e"
    by (auto simp add: querySelector_def split: option.splits)
  with qs_found(2) [OF q] show ?thesis by auto
qed

lemma querySelector_None: "querySelector sel doc = None \<longleftrightarrow> qs_nodes sel doc = None"
proof
  assume "querySelector sel doc = None"
  then show "qs_nodes sel doc = None"
    using qs_found(2) [of sel doc] by (auto simp add: querySelector_def split: option.splits)
next
  assume "qs_nodes sel doc = None"
  then show "querySelector sel doc = None" by (simp add: querySelector_def)
qed

lemma getElementById_Some:
  assumes "getElementById i doc = Some (p, e)"
  shows "node_at doc p = Some e \<and> 1 \<le> countNode i e"
proof -
  from assms obtain p' where q: "qs_nodes [[IdSel i]] doc = Some p'"
    by (auto simp add: getElementById_def querySelector_def split: option.splits)
  with assms have pe: "p' = p" "node_at doc p = Some e"
    by (auto simp add: getElementById_def querySelector_def split: option.splits)
  from qs_found(2) [OF q] pe obtain t a l cs sel' where
    e: "e = Element t a l cs" and s: "selects sel' e" "last sel' = [IdSel i]"
    by auto
  from selects_single [OF s] have "matchesCompound [IdSel i] e" .
  with e have "map_of a ''id'' = Some i" by (simp add: matchesCompound_def)
  with e pe show ?thesis by simp
qed

lemma qs_id_None:
  "sel = [[IdSel i]] \<Longrightarrow> qs_node sel n = None \<Longrightarrow> countNode i n = 0"
  "sel = [[IdSel i]] \<Longrightarrow> qs_nodes sel ns = None \<Longrightarrow> countId i ns = 0"
proof (induction sel n and sel ns rule: qs_node_qs_nodes.induct)
  case (1 sel s)
  then show ?case by simp
next
  case (2 sel t a l cs)
  from "2.prems" have ns: "\<not> selects sel (Element t a l cs)"
    by (auto split: if_splits)
  with "2.prems" have "qs_nodes (descend sel (Element t a l cs)) cs = None" by simp
  moreover from "2.prems"(1) have "descend sel (Element t a l cs) = [[IdSel i]]" by simp
  ultimately have "countId i cs = 0" using "2.IH" [OF ns] by simp
  moreover from ns "2.prems"(1) have "map_of a ''id'' \<noteq> Some i"
    by (simp add: matchesCompound_def)
  ultimately show ?case by (simp add: countId_def)
next
  case (3 sel)
  then show ?case by (simp add: countId_def)
next
  case (4 sel n ns)
  from "4.prems" have n: "qs_node sel n = None" by (auto split: option.splits)
  with "4.prems" have "qs_nodes sel ns = None \<or> qs_nodes sel ns = Some []"
    by (auto split: option.splits list.splits)
  moreover have "qs_nodes sel ns \<noteq> Some []"
    using qs_found(2) [of sel ns "[]"] by auto
  ultimately have ns: "qs_nodes sel ns = None" by simp
  from "4.IH"(1) [OF "4.prems"(1) n] "4.IH"(2) [OF n "4.prems"(1) ns]
  show ?case by (simp add: countId_def)
qed

lemma getElementById_None: "getElementById i doc = None \<Longrightarrow> countId i doc = 0"
  using qs_id_None(2) [of "[[IdSel i]]" i doc]
  by (simp add: getElementById_def querySelector_None)

lemma countId_Cons: "countId i (n # ns) = countNode i n + countId i ns"
  by (simp add: countId_def)

lemma countId_append: "countId i (xs @ ys) = countId i xs + countId i ys"
  by (simp add: countId_def)

lemma countId_split:
  "j < length ns \<Longrightarrow>
     countId i ns = countId i (take j ns) + countNode i (ns ! j) + countId i (drop (Suc j) ns)"
proof -
  assume "j < length ns"
  then have "ns = take j ns @ ns ! j # drop (Suc j) ns" by (rule id_take_nth_drop)
  then have "countId i ns = countId i (take j ns @ ns ! j # drop (Suc j) ns)" by simp
  then show ?thesis by (simp add: countId_append countId_Cons)
qed

lemma countId_list_update:
  "j < length ns \<Longrightarrow>
     countId i (ns[j := x]) = countId i (take j ns) + countNode i x + countId i (drop (Suc j) ns)"
  by (simp add: upd_conv_take_nth_drop countId_append countId_Cons)

lemma countId_remove_at:
  "node_at ns p = Some n \<Longrightarrow> countId i (remove_at p ns) + countNode i n = countId i ns"
proof (induction p ns arbitrary: n rule: remove_at.induct)
  case (1 ns)
  then show ?case by simp
next
  case (2 j ns)
  then have "j < length ns" "ns ! j = n" by (simp_all add: element_Some)
  then show ?case using countId_split [of j ns i] by (simp add: countId_append)
next
  case (3 j k q ns)
  from "3.prems" obtain t a l cs where
    e: "element ns j = Some (Element t a l cs)" and at: "node_at cs (k # q) = Some n"
    by (auto split: option.splits node.splits)
  then have j: "j < length ns" "ns ! j = Element t a l cs" by (simp_all add: element_Some)
  from "3.IH" [OF e refl at]
  have ih: "countId i (remove_at (k # q) cs) + countNode i n = countId i cs" .
  have "countId i (remove_at (j # k # q) ns) =
      countId i (take j ns) + countNode i (Element t a l (remove_at (k # q) cs))
        + countId i (drop (Suc j) ns)"
    using e j by (simp add: countId_list_update)
  moreover have "countId i ns =
      countId i (take j ns) + countNode i (Element t a l cs) + countId i (drop (Suc j) ns)"
    using countId_split [OF j(1), of i] j(2) by simp
  ultimately show ?case using ih by (simp add: countId_def)
qed


lemma node_at_update_at:
  "node_at ns p = Some n \<Longrightarrow> node_at (update_at p f ns) p = Some (f n)"
proof (induction p f ns arbitrary: n rule: update_at.induct)
  case (1 f ns)
  then show ?case by simp
next
  case (2 j f ns)
  then have "j < length ns" "ns ! j = n" by (simp_all add: element_Some)
  then show ?case by (simp add: element_def)
next
  case (3 j k q f ns)
  from "3.prems" obtain t a l cs where
    e: "element ns j = Some (Element t a l cs)" and at: "node_at cs (k # q) = Some n"
    by (auto split: option.splits node.splits)
  then have j: "j < length ns" "ns ! j = Element t a l cs" by (simp_all add: element_Some)
  from "3.IH" [OF e refl at] j show ?case by (simp add: element_def)
qed


lemma countNode_prependChild:
  "countNode i (prependChild b (Element t a l cs)) = countNode i (Element t a l cs) + countNode i b"
  by simp

section \<open>Facts about a render cycle\<close>

lemma splitFirst_none: "sep \<notin> set s \<Longrightarrow> splitFirst sep s = (s, None)"
  by (induction s) (auto simp add: splitFirst_def)

lemma splitFirst_append: "sep \<notin> set a \<Longrightarrow> splitFirst sep (a @ sep # b) = (a, Some b)"
  by (induction a) (auto simp add: splitFirst_def)

lemma first_piece:
  obtains "sep \<notin> set s" "split_sep sep s = [s]"
  | a b where "sep \<notin> set a" "s = a @ sep # b" "split_sep sep s = a # split_sep sep b"
proof (cases "sep \<in> set s")
  case False
  then show ?thesis using that(1) split_sep_none by blast
next
  case True
  then obtain a b where "s = a @ sep # b" "sep \<notin> set a" by (blast dest: split_list_first)
  then show ?thesis using that(2) split_sep_append by blast
qed

lemma parseFloat_first_piece:
  "\<exists>f fs. split_sep CHR '','' r = f # fs \<and> parseFloat f = parseFloat r"
proof (cases rule: first_piece [of "CHR '',''" r])
  case 1
  then show ?thesis by simp
next
  case (2 a b)
  then show ?thesis by (simp add: parseFloat_stop)
qed

lemma parseCsvRow_refines: "parseCsvRow row = parseCsvRow_spec row"
proof (cases rule: first_piece [of "CHR '',''" row])
  case 1
  then show ?thesis
    by (simp add: parseCsvRow_def parseCsvRow_spec_def splitFirst_none element_def)
next
  case (2 a b)
  obtain f fs where "split_sep CHR '','' b = f # fs" "parseFloat f = parseFloat b"
    using parseFloat_first_piece by blast
  with 2 show ?thesis
    by (simp add: parseCsvRow_def parseCsvRow_spec_def splitFirst_append element_def ToString_def)
qed

lemma settle_document: "document (snd (getExchangeRates_settle f w)) = document w"
  by (simp add: getExchangeRates_settle_def console_error_def
      split: fetch_result.splits sum.splits)

lemma settle_requests: "requests (snd (getExchangeRates_settle f w)) = requests w"
  by (simp add: getExchangeRates_settle_def console_error_def
      split: fetch_result.splits sum.splits)

lemma settle_fst: "fst (getExchangeRates_settle f w) = fst (getExchangeRates_settle f w')"
  by (simp add: getExchangeRates_settle_def split: fetch_result.splits sum.splits)

lemma settle_console:
  "fst (getExchangeRates_settle f w) = Inr rates \<Longrightarrow>
   console (snd (getExchangeRates_settle f w)) =
     console w @
       (case f of
          Rejected x \<Rightarrow> [ConsoleError ''Error fetching exchange rates:'' x]
        | Fulfilled r \<Rightarrow>
            if ok r then []
            else [ConsoleError ''Error fetching exchange rates:'' (HttpError (status r))])"
  by (simp add: getExchangeRates_settle_def console_error_def
      split: fetch_result.splits sum.splits)

lemma begin_cases:
  obtains (not_product) r where
    "\<not> isProductPage (document w)" "displayCurrencies_begin w = (Settled r, w)"
  | (product) w1 where
    "isProductPage (document w)" "displayCurrencies_begin w = (Pending, w1)"
proof (cases "querySelector [[TagSel ''meta'', AttrWordSel ''property'' ''og:type'']] (document w)")
  case None
  then show ?thesis
    using not_product [of "Some TypeError"]
    by (simp add: displayCurrencies_begin_def isProductPage_def)
next
  case (Some pe)
  obtain p e where pe: "pe = (p, e)" by (cases pe)
  show ?thesis
  proof (cases "getAttribute e ''content'' = Some ''product''")
    case True
    with Some pe show ?thesis
      using product by (simp add: displayCurrencies_begin_def isProductPage_def Let_def)
  next
    case False
    with Some pe show ?thesis
      using not_product [of None] by (simp add: displayCurrencies_begin_def isProductPage_def)
  qed
qed

lemma begin_console:
  "console (snd (displayCurrencies_begin w)) = console w"
  by (simp add: displayCurrencies_begin_def getExchangeRates_begin_def fetch_def Let_def
      split: option.splits prod.splits)

lemma begin_document_count:
  assumes "displayCurrencies_begin w = (Pending, w1)"
    and "countId ''multi-currency-display'' (document w) \<le> 1"
  shows "countId ''multi-currency-display'' (document w1) = 0"
proof (cases "getElementById ''multi-currency-display'' (document w)")
  case None
  with assms(1) have "document w1 = document w"
    by (auto simp add: displayCurrencies_begin_def getExchangeRates_begin_def fetch_def
        split: option.splits if_splits)
  with getElementById_None [OF None] show ?thesis by simp
next
  case (Some qe)
  obtain q e where qe: "qe = (q, e)" by (cases qe)
  with Some assms(1) have d: "document w1 = remove_at q (document w)"
    by (auto simp add: displayCurrencies_begin_def getExchangeRates_begin_def fetch_def
        split: option.splits if_splits)
  from getElementById_Some [OF Some [unfolded qe]]
  have at: "node_at (document w) q = Some e" and c: "1 \<le> countNode ''multi-currency-display'' e"
    by simp_all
  from countId_remove_at [OF at, of "''multi-currency-display''"] c assms(2) d
  show ?thesis by simp
qed

lemma begin_at_most_one:
  assumes "countId ''multi-currency-display'' (document w) \<le> 1"
  shows "countId ''multi-currency-display'' (document (snd (displayCurrencies_begin w))) \<le> 1"
proof (cases rule: begin_cases [of w])
  case (not_product r)
  with assms show ?thesis by simp
next
  case (product w1)
  with begin_document_count [OF product(2) assms] show ?thesis by simp
qed






lemma matchPrice_None: "\<forall>c\<in>set t. \<not> isDigit c \<Longrightarrow> matchPrice t = None"
  by (simp add: matchPrice_def)

text \<open>
  The match of the price pattern never holds a comma, so the replacement that follows it on
  line 38 changes nothing.
\<close>

lemma matchPrice_no_comma: "matchPrice t = Some m \<Longrightarrow> removeCommas m = m"
proof -
  assume m: "matchPrice t = Some m"
  define u where "u = dropWhile (\<lambda>c. \<not> isDigit c) t"
  have dig: "CHR '','' \<notin> set (takeWhile isDigit xs)" for xs
    using comma_not_digit by (auto dest: set_takeWhileD)
  from m have m': "m = (case dropWhile isDigit u of
                      [] \<Rightarrow> takeWhile isDigit u
                    | c # r1 \<Rightarrow>
                        if c = CHR ''.'' \<and> takeWhile isDigit r1 \<noteq> []
                        then takeWhile isDigit u @ c # takeWhile isDigit r1
                        else takeWhile isDigit u)"
    unfolding matchPrice_def Let_def u_def by (simp split: if_splits)
  have "CHR '','' \<notin> set m"
  proof (cases "dropWhile isDigit u")
    case Nil
    with m' dig show ?thesis by simp
  next
    case (Cons c r1)
    with m' dig [of u] dig [of r1] show ?thesis by (simp split: if_splits)
  qed
  then have "\<forall>c\<in>set m. c \<noteq> CHR '',''" by blast
  then show ?thesis by (simp add: removeCommas_def)
qed

text \<open>Without a variant control on the page the controller throws.\<close>

lemma initCurrencyConversion_no_variant:
  assumes "querySelector [[ClassSel ''variant-select-wrapper''], [TagSel ''select'']]
             (document (snd (displayCurrencies_begin w))) = None"
  shows "fst (initCurrencyConversion w) = Some TypeError"
  using assms by (simp add: initCurrencyConversion_def split_beta)

text \<open>The definitions a concrete run unfolds.\<close>

lemmas run_defs =
  displayCurrencies_def displayCurrencies_begin_def displayCurrencies_resume_def
  getExchangeRates_def getExchangeRates_begin_def getExchangeRates_settle_def fetch_def
  console_error_def ok_def
  extractPrice_def priceOfText_def matchPrice_def removeCommas_def
  querySelector_def getElementById_def matchesCompound_def tokens_def isAsciiWhitespace_def
  element_def isProductPage_def displayBlock_def listItem_def setTextContent_def ToString_def
  formatRate_def NumberFormat_def format_def isWellFormedCurrencyCode_def isAsciiLetter_def
  countId_def examplePage_def exampleVariants_def exampleWorld_def exampleIntl_def
  initCurrencyConversion_def

lemmas number_defs =
  parseFloat_def scanLiteral_def trimStart_def isWhiteSpace_def scanUnsigned_def
  scanFraction_def scanExponent_def isDigit_def digitsValue_def digitValue_def scale10_def
  numberValue_def parseCsvRows_def parseCsvRow_def

section \<open>The claims\<close>

text \<open>
  C1. Whenever the fetch is rejected (a failure at the network level) or the response status
  is not a success status (outside 200 to 299), \<open>getExchangeRates\<close> returns the empty list of
  rate records as a normal return value, so no exception leaves it, and it has written one
  diagnostic entry, carrying the error, to the console.
\<close>

theorem getExchangeRates_fail_soft:
  assumes "f = Rejected e \<or> (f = Fulfilled r \<and> \<not> (200 \<le> status r \<and> status r \<le> 299))"
  shows "getExchangeRates f w =
           (Inr [],
            w\<lparr>requests := requests w @ [GOOGLE_SHEETS_URL],
              console := console w @
                [ConsoleError ''Error fetching exchange rates:''
                   (case f of Rejected x \<Rightarrow> x | Fulfilled x \<Rightarrow> HttpError (status x))]\<rparr>)"
  using assms
  by (auto simp add: getExchangeRates_def getExchangeRates_begin_def getExchangeRates_settle_def
      fetch_def console_error_def ok_def)

text \<open>Instances: a response with status 404, and a rejected fetch.\<close>

theorem getExchangeRates_fail_soft_witness:
  "getExchangeRates (Fulfilled \<lparr>status = 404, body = Inr ''Not Found''\<rparr>) (exampleWorld []) =
     (Inr [],
      \<lparr>document = [], console = [ConsoleError ''Error fetching exchange rates:'' (HttpError 404)],
       requests = [GOOGLE_SHEETS_URL]\<rparr>) \<and>
   getExchangeRates (Rejected TypeError) (exampleWorld []) =
     (Inr [],
      \<lparr>document = [], console = [ConsoleError ''Error fetching exchange rates:'' TypeError],
       requests = [GOOGLE_SHEETS_URL]\<rparr>)"
  using getExchangeRates_fail_soft [of "Fulfilled \<lparr>status = 404, body = Inr ''Not Found''\<rparr>"
      TypeError "\<lparr>status = 404, body = Inr ''Not Found''\<rparr>" "exampleWorld []"]
    getExchangeRates_fail_soft [of "Rejected TypeError" TypeError
      "\<lparr>status = 404, body = Inr ''Not Found''\<rparr>" "exampleWorld []"]
  by (simp add: exampleWorld_def)




text \<open>
  C3, as amended. For every line that has no comma, and for every line whose second field
  does not start with a numeral (after optional leading white space and a sign: the text
  \<^verbatim>\<open>Infinity\<close>, a digit, or a point followed by a digit), the parser yields a record whose
  rate is NaN; it yields one record per line and raises nothing.
\<close>

theorem parseCsvRows_rate_NaN:
  assumes "i < length rows"
    and "CHR '','' \<notin> set (rows ! i) \<or>
         (\<exists>f. element (split_sep CHR '','' (rows ! i)) 1 = Some f \<and> \<not> startsNumeral f)"
  shows "length (parseCsvRows rows) = length rows \<and> rate (parseCsvRows rows ! i) = NaN"
proof -
  have "rate (parseCsvRow (rows ! i)) = NaN"
    using assms(2)
  proof
    assume "CHR '','' \<notin> set (rows ! i)"
    then have "split_sep CHR '','' (rows ! i) = [rows ! i]" by (rule split_sep_none)
    moreover have "parseFloat ''undefined'' = NaN"
      by (simp add: parseFloat_NaN startsNumeral_def trimStart_def isWhiteSpace_def isDigit_def)
    ultimately show ?thesis by (simp add: parseCsvRow_def element_def ToString_def)
  next
    assume "\<exists>f. element (split_sep CHR '','' (rows ! i)) 1 = Some f \<and> \<not> startsNumeral f"
    then show ?thesis by (auto simp add: parseCsvRow_def ToString_def parseFloat_NaN)
  qed
  with assms(1) show ?thesis by (simp add: parseCsvRows_def)
qed

text \<open>Instances: an empty line and a line whose second field is text.\<close>

theorem parseCsvRows_rate_NaN_witness:
  "length (parseCsvRows [''USD,1.0'', [], ''EUR,n/a'']) = 3 \<and>
   rate (parseCsvRows [''USD,1.0'', [], ''EUR,n/a''] ! 1) = NaN \<and>
   rate (parseCsvRows [''USD,1.0'', [], ''EUR,n/a''] ! 2) = NaN"
  using parseCsvRows_rate_NaN [of 1 "[''USD,1.0'', [], ''EUR,n/a'']"]
    parseCsvRows_rate_NaN [of 2 "[''USD,1.0'', [], ''EUR,n/a'']"]
  by (simp add: element_def startsNumeral_def trimStart_def isWhiteSpace_def isDigit_def)

text \<open>
  The claim as first stated fails: the second field \<^verbatim>\<open>12abc\<close> is not numeric, yet the rate
  of the record is the number 12, since parseFloat reads the numeral a text starts with.
\<close>

theorem parseCsvRows_numeric_prefix_counterexample:
  "\<not> numericField ''12abc'' \<and>
   element (split_sep CHR '','' ''USD,12abc'') 1 = Some ''12abc'' \<and>
   parseCsvRows [''USD,12abc''] = [\<lparr>currency = Some ''USD'', rate = Finite 12\<rparr>]"
  by (simp add: numericField_def element_def ToString_def number_defs)

text \<open>
  C4. When the content of the \<^verbatim>\<open>og:type\<close> meta element is not \<^verbatim>\<open>product\<close>, the render
  cycle ends in its first part, before any request is issued, and leaves the whole world as
  it was: the document, the console and the list of requests.
\<close>

theorem displayCurrencies_not_product:
  assumes "querySelector [[TagSel ''meta'', AttrWordSel ''property'' ''og:type'']] (document w) =
             Some (p, pageType)"
    and "getAttribute pageType ''content'' \<noteq> Some ''product''"
  shows "displayCurrencies_begin w = (Settled None, w) \<and> displayCurrencies I f w = (None, w)"
  using assms by (simp add: displayCurrencies_def displayCurrencies_begin_def)

text \<open>An instance: a page of type \<^verbatim>\<open>article\<close>.\<close>

theorem displayCurrencies_not_product_witness:
  "displayCurrencies_begin (exampleWorld (examplePage ''article'' ''$10.00'' [])) =
     (Settled None, exampleWorld (examplePage ''article'' ''$10.00'' [])) \<and>
   displayCurrencies exampleIntl (Rejected TypeError)
       (exampleWorld (examplePage ''article'' ''$10.00'' [])) =
     (None, exampleWorld (examplePage ''article'' ''$10.00'' []))"
  using displayCurrencies_not_product
    [of "exampleWorld (examplePage ''article'' ''$10.00'' [])" "[0, 0, 0]"
      "Element ''meta'' [(''property'', ''og:type''), (''content'', ''article'')] [] []"
      exampleIntl "Rejected TypeError"]
  by (simp add: run_defs)

text \<open>
  C5. For every line made of a code without a comma, a comma, and a numeral \<^verbatim>\<open>ds.fs\<close> of
  digits, the parser yields the record whose currency is the code as written and whose rate is
  the number value of that numeral. And for every list of lines the parser agrees with the
  parser that cuts each line at its first comma into exactly two fields and parses the
  second as a floating point number.
\<close>

theorem parseCsvRows_well_formed:
  assumes "CHR '','' \<notin> set code" and "ds \<noteq> []" and "fs \<noteq> []"
    and "\<forall>c\<in>set ds. isDigit c" and "\<forall>c\<in>set fs. isDigit c"
  shows "parseCsvRows [code @ '','' @ ds @ ''.'' @ fs] =
           [\<lparr>currency = Some code, rate = numberValue (decimalValue ds fs)\<rparr>] \<and>
         parseCsvRows rows = map parseCsvRow_spec rows"
proof -
  have field: "CHR '','' \<notin> set (ds @ CHR ''.'' # fs)"
    using assms(4,5) digit_facts(6) by auto
  have "split_sep CHR '','' (code @ CHR '','' # ds @ CHR ''.'' # fs) = [code, ds @ CHR ''.'' # fs]"
    using assms(1) field by (simp add: split_sep_append split_sep_none)
  moreover have "parseFloat (ds @ CHR ''.'' # fs) = numberValue (decimalValue ds fs)"
    using scanLiteral_decimal [OF assms(2-5)] by (simp add: parseFloat_def)
  ultimately have "parseCsvRow (code @ '','' @ ds @ ''.'' @ fs) =
      \<lparr>currency = Some code, rate = numberValue (decimalValue ds fs)\<rparr>"
    by (simp add: parseCsvRow_def element_def ToString_def)
  moreover have "parseCsvRows rows = map parseCsvRow_spec rows"
    by (simp add: parseCsvRows_def parseCsvRow_refines)
  ultimately show ?thesis by (simp add: parseCsvRows_def)
qed

text \<open>Instances: the line of the claim, and a line with two commas.\<close>

theorem parseCsvRows_well_formed_witness:
  "parseCsvRows [''XXX,12.34''] = [\<lparr>currency = Some ''XXX'', rate = Finite (617 / 50)\<rparr>] \<and>
   parseCsvRows [''JPY,1,5''] = map parseCsvRow_spec [''JPY,1,5'']"
  using parseCsvRows_well_formed [of "''XXX''" "''12''" "''34''" "[''JPY,1,5'']"]
  by (simp add: isDigit_def decimalValue_def digitsValue_def digitValue_def numberValue_def)

text \<open>
  C6. The price extractor on two price texts. For \<^verbatim>\<open>From $45.99\<close> the extracted price is
  45.99. For \<^verbatim>\<open>$1,234.56\<close> the pattern stops at the comma, the match is \<^verbatim>\<open>1\<close>, and the
  extracted price is 1, not 1234.56.
\<close>

theorem extractPrice_examples:
  "extractPrice (examplePage ''product'' ''From $45.99'' []) = Inr (Finite (4599 / 100)) \<and>
   matchPrice ''$1,234.56'' = Some ''1'' \<and>
   extractPrice (examplePage ''product'' ''$1,234.56'' []) = Inr (Finite 1)"
  by (simp add: run_defs number_defs)

text \<open>
  C7, as amended. For a rate record whose rate is NaN and whose currency is a well-formed
  code (three letters), the formatting step raises nothing and yields the currency sign
  followed by the token \<^verbatim>\<open>NaN\<close>; when the currency is not a well-formed code, the
  construction of the formatter raises a RangeError.
\<close>

theorem formatRate_NaN:
  assumes "rate r = NaN" and "currency r = Some c"
  shows "formatRate I price r =
           (if isWellFormedCurrencyCode c then Inr (Some c, currencySign I c @ ''NaN'')
            else Inl RangeError)"
proof -
  have "multiply price NaN = NaN" by (cases price) simp_all
  with assms show ?thesis by (simp add: formatRate_def NumberFormat_def format_def)
qed

text \<open>Instances: a NaN rate under the code EUR, and under the empty code.\<close>

theorem formatRate_NaN_witness:
  "formatRate exampleIntl (Finite (4599 / 100)) \<lparr>currency = Some ''EUR'', rate = NaN\<rparr> =
     Inr (Some ''EUR'', ''EUR NaN'') \<and>
   formatRate exampleIntl (Finite (4599 / 100)) \<lparr>currency = Some [], rate = NaN\<rparr> =
     Inl RangeError"
  using formatRate_NaN [of "\<lparr>currency = Some ''EUR'', rate = NaN\<rparr>" "''EUR''" exampleIntl
      "Finite (4599 / 100)"]
    formatRate_NaN [of "\<lparr>currency = Some [], rate = NaN\<rparr>" "[]" exampleIntl
      "Finite (4599 / 100)"]
  by (simp add: isWellFormedCurrencyCode_def isAsciiLetter_def exampleIntl_def)

text \<open>
  The claim as first stated fails on a feed that ends with a line break: the trailing empty
  line gives a record with the empty currency and a NaN rate, formatting it raises a
  RangeError, and the render cycle ends with that exception and no display block.
\<close>

theorem formatRate_trailing_line_counterexample:
  "parseCsvRows (split_sep CHR 0x0A (''USD,1.0'' @ [CHR 0x0A])) =
     [\<lparr>currency = Some ''USD'', rate = Finite 1\<rparr>, \<lparr>currency = Some [], rate = NaN\<rparr>] \<and>
   formatRate exampleIntl (Finite (4599 / 100)) \<lparr>currency = Some [], rate = NaN\<rparr> =
     Inl RangeError \<and>
   displayCurrencies exampleIntl
       (Fulfilled \<lparr>status = 200, body = Inr (''USD,1.0'' @ [CHR 0x0A])\<rparr>)
       (exampleWorld (examplePage ''product'' ''From $45.99'' [])) =
     (Some RangeError,
      \<lparr>document = examplePage ''product'' ''From $45.99'' [], console = [],
       requests = [GOOGLE_SHEETS_URL]\<rparr>)"
  by (simp add: run_defs number_defs)

text \<open>
  C8. On a product page whose price element has a text without any digit, a render cycle
  (whose rates retrieval has returned) aborts at the price extraction with a TypeError that
  nothing catches. No display block is produced or inserted and nothing is shown: the
  document is as the first part of the cycle left it. The abort writes no log entry: the
  console after the cycle is the console as \<open>getExchangeRates\<close> left it, which is the
  console from before the cycle when the fetch succeeded, and holds the one entry of the
  fetcher in addition when the fetch had failed.
\<close>

theorem displayCurrencies_price_without_digits:
  assumes "isProductPage (document w)"
    and "fst (getExchangeRates f w) = Inr rates"
    and "querySelector [[ClassSel ''product-price'']]
           (document (snd (displayCurrencies_begin w))) = Some (p, e)"
    and "\<forall>c\<in>set (textContent e). \<not> isDigit c"
  shows "fst (displayCurrencies I f w) = Some TypeError \<and>
         document (snd (displayCurrencies I f w)) = document (snd (displayCurrencies_begin w)) \<and>
         console (snd (displayCurrencies I f w)) = console (snd (getExchangeRates f w)) \<and>
         console (snd (displayCurrencies I f w)) =
           console w @
             (case f of
                Rejected x \<Rightarrow> [ConsoleError ''Error fetching exchange rates:'' x]
              | Fulfilled r \<Rightarrow>
                  if ok r then []
                  else [ConsoleError ''Error fetching exchange rates:'' (HttpError (status r))])"
proof -
  obtain w1 where b: "displayCurrencies_begin w = (Pending, w1)"
    using assms(1) by (cases rule: begin_cases [of w]) simp_all
  have f1: "fst (getExchangeRates_settle f w1) = Inr rates"
    using assms(2) settle_fst [of f w1 "getExchangeRates_begin w"] by (simp add: getExchangeRates_def)
  then obtain w2 where s: "getExchangeRates_settle f w1 = (Inr rates, w2)"
    by (cases "getExchangeRates_settle f w1") simp
  have d: "document w2 = document w1" using settle_document [of f w1] s by simp
  have "console w1 = console w" using begin_console [of w] b by simp
  then have c: "console w2 = console w @
             (case f of
                Rejected x \<Rightarrow> [ConsoleError ''Error fetching exchange rates:'' x]
              | Fulfilled r \<Rightarrow>
                  if ok r then []
                  else [ConsoleError ''Error fetching exchange rates:'' (HttpError (status r))])"
    using settle_console [OF f1] s by simp
  have g: "console (snd (getExchangeRates f w)) = console w @
             (case f of
                Rejected x \<Rightarrow> [ConsoleError ''Error fetching exchange rates:'' x]
              | Fulfilled r \<Rightarrow>
                  if ok r then []
                  else [ConsoleError ''Error fetching exchange rates:'' (HttpError (status r))])"
    using settle_console [of f "getExchangeRates_begin w" rates] assms(2)
    by (simp add: getExchangeRates_def getExchangeRates_begin_def fetch_def)
  have "extractPrice (document w2) = Inl TypeError"
    using assms(3) b matchPrice_None [OF assms(4)]
    by (simp add: extractPrice_def priceOfText_def d)
  then have "displayCurrencies I f w = (Some TypeError, w2)"
    using b s by (simp add: displayCurrencies_def displayCurrencies_resume_def)
  with b d c g show ?thesis by simp
qed

text \<open>An instance: the price text \<^verbatim>\<open>Sold out\<close> and a feed that was fetched.\<close>

theorem displayCurrencies_price_without_digits_witness:
  "displayCurrencies exampleIntl (Fulfilled \<lparr>status = 200, body = Inr ''USD,1.0''\<rparr>)
       (exampleWorld (examplePage ''product'' ''Sold out'' [])) =
     (Some TypeError,
      \<lparr>document = examplePage ''product'' ''Sold out'' [], console = [],
       requests = [GOOGLE_SHEETS_URL]\<rparr>)"
proof -
  let ?w = "exampleWorld (examplePage ''product'' ''Sold out'' [])"
  let ?f = "Fulfilled \<lparr>status = 200, body = Inr ''USD,1.0''\<rparr>"
  let ?e = "Element ''div'' [(''class'', ''product-price'')] [] [Text ''Sold out'']"
  have p: "isProductPage (document ?w)" by (simp add: run_defs)
  have r: "fst (getExchangeRates ?f ?w) = Inr [\<lparr>currency = Some ''USD'', rate = Finite 1\<rparr>]"
    by (simp add: run_defs number_defs)
  have b: "snd (displayCurrencies_begin ?w) =
      \<lparr>document = examplePage ''product'' ''Sold out'' [], console = [],
       requests = [GOOGLE_SHEETS_URL]\<rparr>"
    by (simp add: run_defs)
  have q: "querySelector [[ClassSel ''product-price'']]
      (document (snd (displayCurrencies_begin ?w))) = Some ([0, 1, 0], ?e)"
    unfolding b by (simp add: run_defs)
  have n: "\<forall>c\<in>set (textContent ?e). \<not> isDigit c" by (simp add: isDigit_def)
  have cw: "console ?w = []" by (simp add: exampleWorld_def)
  note t = displayCurrencies_price_without_digits [OF p r q n, of exampleIntl]
  have "fst (displayCurrencies exampleIntl ?f ?w) = Some TypeError"
    using t [THEN conjunct1] .
  moreover have "document (snd (displayCurrencies exampleIntl ?f ?w)) =
      examplePage ''product'' ''Sold out'' []"
    using t [THEN conjunct2, THEN conjunct1] by (simp add: b)
  moreover have "console (snd (displayCurrencies exampleIntl ?f ?w)) = []"
    using t [THEN conjunct2, THEN conjunct2, THEN conjunct2] by (simp add: cw ok_def)
  moreover have "requests (snd (displayCurrencies exampleIntl ?f ?w)) = [GOOGLE_SHEETS_URL]"
    by (simp add: run_defs number_defs)
  ultimately show ?thesis by (simp add: prod_eq_iff)
qed

text \<open>
  An instance with a failed fetch: the one entry in the console is the fetcher's, written
  before the price extraction; the abort adds nothing to it.
\<close>

lemma displayCurrencies_price_without_digits_failed_fetch:
  "displayCurrencies exampleIntl (Rejected TypeError)
       (exampleWorld (examplePage ''product'' ''Sold out'' [])) =
     (Some TypeError,
      snd (getExchangeRates (Rejected TypeError)
        (exampleWorld (examplePage ''product'' ''Sold out'' []))))"
  by (simp add: run_defs number_defs)

text \<open>
  C9. The controller on two product pages. Without a variant control the lookup on line 72
  yields \<^verbatim>\<open>null\<close>, and the call on line 73 throws a TypeError out of
  \<open>initCurrencyConversion\<close>, after the render cycle has been started. With a variant control
  the controller returns normally, having started one render cycle and added the change
  listener to the control.
\<close>

theorem initCurrencyConversion_examples:
  "initCurrencyConversion (exampleWorld (examplePage ''product'' ''$10.00'' [])) =
     (Some TypeError, Pending,
      \<lparr>document = examplePage ''product'' ''$10.00'' [], console = [],
       requests = [GOOGLE_SHEETS_URL]\<rparr>) \<and>
   initCurrencyConversion (exampleWorld (examplePage ''product'' ''$10.00'' exampleVariants)) =
     (None, Pending,
      \<lparr>document =
         examplePage ''product'' ''$10.00''
           [Element ''div'' [(''class'', ''variant-select-wrapper'')] []
              [Element ''select'' [] [(''change'', DisplayCurrencies)] []]],
       console = [], requests = [GOOGLE_SHEETS_URL]\<rparr>)"
  by (simp add: run_defs)

text \<open>
  C10. On a product page, when \<open>getExchangeRates\<close> returns the empty list, the price
  extraction succeeds and the details container exists, the render cycle completes normally
  and the display block, the heading followed by an empty list, is the first child of the
  details container, before the children the container had.
\<close>

theorem displayCurrencies_no_rates:
  assumes "isProductPage (document w)"
    and "fst (getExchangeRates f w) = Inr []"
    and "extractPrice (document (snd (displayCurrencies_begin w))) = Inr price"
    and "querySelector [[ClassSel ''ProductItem-details-excerpt'']]
           (document (snd (displayCurrencies_begin w))) = Some (d, detailsElement)"
  shows "fst (displayCurrencies I f w) = None \<and>
         map_option childNodes (node_at (document (snd (displayCurrencies I f w))) d) =
           Some (displayBlock [] # childNodes detailsElement) \<and>
         displayBlock [] =
           Element ''div'' [(''id'', ''multi-currency-display'')] []
             [Element ''p'' [] [] [Text ''Approximate price in other currencies''],
              Element ''ul'' [] [] []]"
proof -
  obtain w1 where b: "displayCurrencies_begin w = (Pending, w1)"
    using assms(1) by (cases rule: begin_cases [of w]) simp_all
  have "fst (getExchangeRates_settle f w1) = Inr []"
    using assms(2) settle_fst [of f w1 "getExchangeRates_begin w"] by (simp add: getExchangeRates_def)
  then obtain w2 where s: "getExchangeRates_settle f w1 = (Inr [], w2)"
    by (cases "getExchangeRates_settle f w1") simp
  then have dw: "document w2 = document w1" using settle_document [of f w1] by simp
  from assms(3,4) b have pr: "extractPrice (document w1) = Inr price"
    and q: "querySelector [[ClassSel ''ProductItem-details-excerpt'']] (document w1) =
              Some (d, detailsElement)"
    by simp_all
  from querySelector_Some [OF q] obtain t a l cs where
    at: "node_at (document w1) d = Some detailsElement" and e: "detailsElement = Element t a l cs"
    by auto
  have r: "displayCurrencies I f w =
      (None, w2\<lparr>document := update_at d (prependChild (displayBlock [])) (document w1)\<rparr>)"
    using b pr q s by (simp add: displayCurrencies_def displayCurrencies_resume_def dw)
  have "node_at (update_at d (prependChild (displayBlock [])) (document w1)) d =
      Some (prependChild (displayBlock []) detailsElement)"
    using at by (rule node_at_update_at)
  with r e show ?thesis by (simp add: displayBlock_def setTextContent_def)
qed

text \<open>An instance: a failed fetch on a page with the price text \<^verbatim>\<open>From $45.99\<close>.\<close>

theorem displayCurrencies_no_rates_witness:
  "fst (displayCurrencies exampleIntl (Rejected TypeError)
          (exampleWorld (examplePage ''product'' ''From $45.99'' []))) = None \<and>
   map_option childNodes
     (node_at (document (snd (displayCurrencies exampleIntl (Rejected TypeError)
        (exampleWorld (examplePage ''product'' ''From $45.99'' []))))) [0, 1, 1]) =
     Some [Element ''div'' [(''id'', ''multi-currency-display'')] []
             [Element ''p'' [] [] [Text ''Approximate price in other currencies''],
              Element ''ul'' [] [] []],
           Element ''p'' [] [] [Text ''Details'']]"
proof -
  let ?w = "exampleWorld (examplePage ''product'' ''From $45.99'' [])"
  let ?e = "Element ''div'' [(''class'', ''ProductItem-details-excerpt'')] []
              [Element ''p'' [] [] [Text ''Details'']]"
  have p: "isProductPage (document ?w)" by (simp add: run_defs)
  have r: "fst (getExchangeRates (Rejected TypeError) ?w) = Inr []"
    by (simp add: run_defs)
  have b: "document (snd (displayCurrencies_begin ?w)) = examplePage ''product'' ''From $45.99'' []"
    by (simp add: run_defs)
  have x: "extractPrice (document (snd (displayCurrencies_begin ?w))) = Inr (Finite (4599 / 100))"
    unfolding b by (simp add: run_defs number_defs)
  have q: "querySelector [[ClassSel ''ProductItem-details-excerpt'']]
      (document (snd (displayCurrencies_begin ?w))) = Some ([0, 1, 1], ?e)"
    unfolding b by (simp add: run_defs)
  from displayCurrencies_no_rates [OF p r x q, of exampleIntl] show ?thesis
    by (simp add: displayBlock_def setTextContent_def)
qed

end
